theory Spec2Isabelle
  imports Main
begin

section \<open>The reference service of paperlib (reference-service.ts)\<close>

text \<open>
  A shallow embedding of \<^verbatim>\<open>src/app/renderer/services/reference-service.ts\<close>.
  JavaScript strings are modelled as \<^typ>\<open>string\<close>: a list of code units, restricted to
  the code units below 256 that \<^typ>\<open>char\<close> can hold. The built-in string methods the
  service calls (\<^verbatim>\<open>split\<close>, \<^verbatim>\<open>join\<close>, \<^verbatim>\<open>trim\<close>, \<^verbatim>\<open>toLowerCase\<close>, \<^verbatim>\<open>replace\<close>, \<^verbatim>\<open>match\<close>)
  are written out as recursive functions with the behaviour ECMAScript gives them.
\<close>

subsection \<open>String methods of the language\<close>

text \<open>\<^verbatim>\<open>s.split(sep)\<close> for a one-character separator: never the empty array;
  \<^verbatim>\<open>"".split(",")\<close> is \<^verbatim>\<open>[""]\<close>.\<close>

fun split_str :: "char \<Rightarrow> string \<Rightarrow> string list" where
  "split_str sep [] = [[]]"
| "split_str sep (c # cs) =
     (if c = sep then [] # split_str sep cs
      else (case split_str sep cs of
              [] \<Rightarrow> [[c]]
            | w # ws \<Rightarrow> (c # w) # ws))"

text \<open>\<^verbatim>\<open>xs.join(sep)\<close>.\<close>

fun join_str :: "string \<Rightarrow> string list \<Rightarrow> string" where
  "join_str sep [] = []"
| "join_str sep [x] = x"
| "join_str sep (x # y # ys) = x @ sep @ join_str sep (y # ys)"

text \<open>\<^verbatim>\<open>s.includes(c)\<close> for a one-character needle.\<close>

definition includes_char :: "string \<Rightarrow> char \<Rightarrow> bool" where
  "includes_char s c = (c \<in> set s)"

text \<open>The white space and line terminators that \<^verbatim>\<open>trim\<close> strips, among the code units
  below 256: TAB, LF, VT, FF, CR, SP and NBSP.\<close>

definition is_js_space :: "char \<Rightarrow> bool" where
  "is_js_space c = (c \<in> set [CHR 0x09, CHR 0x0A, CHR 0x0B, CHR 0x0C, CHR 0x0D, CHR 0x20, CHR 0xA0])"

definition trim :: "string \<Rightarrow> string" where
  "trim s = rev (dropWhile is_js_space (rev (dropWhile is_js_space s)))"

text \<open>\<^verbatim>\<open>toLowerCase\<close> on one code unit below 256: the letters A-Z and the Latin-1
  capitals (0xC0-0xDE without the multiplication sign 0xD7) move up by 32, as the
  two tables list them.\<close>

definition upper_units :: "char list" where
  "upper_units = ''ABCDEFGHIJKLMNOPQRSTUVWXYZ'' @
     [CHR 0xC0, CHR 0xC1, CHR 0xC2, CHR 0xC3, CHR 0xC4, CHR 0xC5, CHR 0xC6, CHR 0xC7,
      CHR 0xC8, CHR 0xC9, CHR 0xCA, CHR 0xCB, CHR 0xCC, CHR 0xCD, CHR 0xCE, CHR 0xCF,
      CHR 0xD0, CHR 0xD1, CHR 0xD2, CHR 0xD3, CHR 0xD4, CHR 0xD5, CHR 0xD6, CHR 0xD8,
      CHR 0xD9, CHR 0xDA, CHR 0xDB, CHR 0xDC, CHR 0xDD, CHR 0xDE]"

definition lower_units :: "char list" where
  "lower_units = ''abcdefghijklmnopqrstuvwxyz'' @
     [CHR 0xE0, CHR 0xE1, CHR 0xE2, CHR 0xE3, CHR 0xE4, CHR 0xE5, CHR 0xE6, CHR 0xE7,
      CHR 0xE8, CHR 0xE9, CHR 0xEA, CHR 0xEB, CHR 0xEC, CHR 0xED, CHR 0xEE, CHR 0xEF,
      CHR 0xF0, CHR 0xF1, CHR 0xF2, CHR 0xF3, CHR 0xF4, CHR 0xF5, CHR 0xF6, CHR 0xF8,
      CHR 0xF9, CHR 0xFA, CHR 0xFB, CHR 0xFC, CHR 0xFD, CHR 0xFE]"

definition lower_char :: "char \<Rightarrow> char" where
  "lower_char c = (case map_of (zip upper_units lower_units) c of Some l \<Rightarrow> l | None \<Rightarrow> c)"

definition toLowerCase :: "string \<Rightarrow> string" where
  "toLowerCase s = map lower_char s"

subsection \<open>Records of the data model\<close>

text \<open>The fields of \<^verbatim>\<open>PaperEntity\<close> that the service reads. \<^verbatim>\<open>codes\<close> may be
  undefined (\<open>None\<close>): the input predicates test it. \<^verbatim>\<open>pubType\<close> is a number.\<close>

record paper_entity =
  pe_id :: string
  authors :: string
  title :: string
  publication :: string
  publisher :: string
  pubTime :: string
  pages :: string
  volume :: string
  number :: string
  doi :: string
  pubType :: int
  codes :: "string list option"

record parsed_name =
  given :: string
  family :: string

text \<open>The CSL object \<^verbatim>\<open>parseSingle\<close> returns. \<^verbatim>\<open>type\<close> is \<open>None\<close> when the
  array lookup yields \<^verbatim>\<open>undefined\<close>.\<close>

record csl =
  csl_id :: string
  csl_type :: "string option"
  citation_key :: string
  csl_title :: string
  author :: "parsed_name list"
  issued :: "string list list"
  container_title :: string
  csl_publisher :: string
  page :: string
  csl_volume :: string
  issue :: string
  DOI :: string

subsection \<open>parseSingle\<close>

text \<open>The callback of \<^verbatim>\<open>nameArray.map\<close> (lines 36-46). \<^verbatim>\<open>nameParts\<close> is never
  empty, so index \<^verbatim>\<open>nameParts.length - 1\<close> is in range.\<close>

definition parse_name :: "string \<Rightarrow> parsed_name" where
  "parse_name name0 =
     (let name = trim name0;
          nameParts = split_str CHR '' '' name;
          given = join_str '' '' (take (length nameParts - 1) nameParts);
          family = nameParts ! (length nameParts - 1)
      in \<lparr>given = given, family = family\<rparr>)"

text \<open>Lines 30-46: the delimiter choice, the split and the map.\<close>

definition parse_authors :: "string \<Rightarrow> parsed_name list" where
  "parse_authors s =
     (let nameArray = (if includes_char s CHR '';'' then split_str CHR '';'' s
                       else split_str CHR '','' s)
      in map parse_name nameArray)"

text \<open>Lines 54-70: the loop over the title words. The function \<open>fmt\<close> stands for
  \<^verbatim>\<open>formatString\<close> of \<^verbatim>\<open>@/base/string\<close> with the four flags of the call; that module is
  not among the sources, so it is a parameter.\<close>

fun title_loop :: "(string \<Rightarrow> string) \<Rightarrow> string \<Rightarrow> string list \<Rightarrow> string" where
  "title_loop fmt citeKey [] = citeKey"
| "title_loop fmt citeKey (word # rest) =
     (if toLowerCase word \<noteq> ''the'' \<or> toLowerCase word \<noteq> ''a''
         \<or> toLowerCase word \<noteq> ''an'' \<or> length word \<le> 3
      then citeKey @ fmt (toLowerCase word)
      else title_loop fmt citeKey rest)"

text \<open>Lines 48-70: the citation key.\<close>

definition cite_key :: "(string \<Rightarrow> string) \<Rightarrow> parsed_name list \<Rightarrow> paper_entity \<Rightarrow> string" where
  "cite_key fmt nameArray p =
     (let citeKey0 = '''';
          citeKey1 = (if length nameArray \<ge> 1
                      then citeKey0 @ toLowerCase (family (nameArray ! 0)) else citeKey0);
          citeKey2 = citeKey1 @ pubTime p;
          titleArray = split_str CHR '' '' (title p)
      in title_loop fmt citeKey2 titleArray)"

text \<open>Lines 73-75: indexing the four-element array with the type code. An index that
  is not one of 0..3 reads \<^verbatim>\<open>undefined\<close>.\<close>

definition type_names :: "string list" where
  "type_names = [''article'', ''paper-conference'', ''article'', ''book'']"

definition type_of_code :: "int \<Rightarrow> string option" where
  "type_of_code k =
     (if 0 \<le> k \<and> k < int (length type_names) then Some (type_names ! nat k) else None)"

definition parseSingle :: "(string \<Rightarrow> string) \<Rightarrow> paper_entity \<Rightarrow> csl" where
  "parseSingle fmt p =
     (let nameArray = parse_authors (authors p) in
      \<lparr>csl_id = pe_id p,
       csl_type = type_of_code (pubType p),
       citation_key = cite_key fmt nameArray p,
       csl_title = title p,
       author = nameArray,
       issued = [[pubTime p]],
       container_title = publication p,
       csl_publisher = publisher p,
       page = pages p,
       csl_volume = volume p,
       issue = number p,
       DOI = doi p\<rparr>)"

definition parseMulti :: "(string \<Rightarrow> string) \<Rightarrow> paper_entity list \<Rightarrow> csl list" where
  "parseMulti fmt ps = map (parseSingle fmt) ps"

definition predicateSingle :: "paper_entity \<Rightarrow> bool" where
  "predicateSingle p = (codes p \<noteq> None)"

definition predicateMulti :: "paper_entity list \<Rightarrow> bool" where
  "predicateMulti ps = list_all (\<lambda>p. codes p \<noteq> None) ps"

text \<open>The \<^verbatim>\<open>bibtex-key\<close> output plugin (lines 126-132).\<close>

definition format_bibtex_key :: "csl list \<Rightarrow> string" where
  "format_bibtex_key csls = join_str '', '' (map citation_key csls)"

text \<open>The selection the specification describes for the title fragment, word for word:
  the first word that is none of the three stop words and is longer than 3 characters.
  It is used only to compare with \<open>title_loop\<close>.\<close>

fun spec_title_loop :: "(string \<Rightarrow> string) \<Rightarrow> string \<Rightarrow> string list \<Rightarrow> string" where
  "spec_title_loop fmt citeKey [] = citeKey"
| "spec_title_loop fmt citeKey (word # rest) =
     (if toLowerCase word \<noteq> ''the'' \<and> toLowerCase word \<noteq> ''a''
         \<and> toLowerCase word \<noteq> ''an'' \<and> length word > 3
      then citeKey @ fmt (toLowerCase word)
      else spec_title_loop fmt citeKey rest)"

subsection \<open>String replacement and the math-span pattern\<close>

text \<open>The first occurrence of a pattern string: the text before it and the text after it.\<close>

fun find_first :: "string \<Rightarrow> string \<Rightarrow> (string \<times> string) option" where
  "find_first pat [] = (if pat = [] then Some ([], []) else None)"
| "find_first pat (c # cs) =
     (if take (length pat) (c # cs) = pat then Some ([], drop (length pat) (c # cs))
      else map_option (\<lambda>(b, a). (c # b, a)) (find_first pat cs))"

text \<open>The replacement text of \<^verbatim>\<open>String.prototype.replace\<close> when the replacement is a
  string (GetSubstitution of ECMAScript, for a string pattern, which has no captures):
  \<^verbatim>\<open>$$\<close> stands for one dollar sign, \<^verbatim>\<open>$&\<close> for the matched text, \<^verbatim>\<open>$`\<close> for the text before
  the match and \<^verbatim>\<open>$'\<close> for the text after it; any other dollar sign stands for itself.\<close>

fun get_substitution :: "string \<Rightarrow> string \<Rightarrow> string \<Rightarrow> string \<Rightarrow> string" where
  "get_substitution m b a [] = []"
| "get_substitution m b a [c] = [c]"
| "get_substitution m b a (c # d # r) =
     (if c = CHR ''$'' then
        (if d = CHR ''$'' then CHR ''$'' # get_substitution m b a r
         else if d = CHR ''&'' then m @ get_substitution m b a r
         else if d = CHR 0x60 then b @ get_substitution m b a r
         else if d = CHR 0x27 then a @ get_substitution m b a r
         else c # get_substitution m b a (d # r))
      else c # get_substitution m b a (d # r))"

text \<open>\<^verbatim>\<open>s.replace(pat, rep)\<close> with two strings: only the first occurrence is replaced.\<close>

definition js_replace :: "string \<Rightarrow> string \<Rightarrow> string \<Rightarrow> string" where
  "js_replace s pat rep =
     (case find_first pat s of
        None \<Rightarrow> s
      | Some (b, a) \<Rightarrow> b @ get_substitution pat b a rep @ a)"

text \<open>\<^verbatim>\<open>s.replaceAll(c, rep)\<close> for a one-character pattern and a replacement without
  dollar signs.\<close>

definition replaceAll_char :: "char \<Rightarrow> string \<Rightarrow> string \<Rightarrow> string" where
  "replaceAll_char c rep s = concat (map (\<lambda>x. if x = c then rep else [x]) s)"

text \<open>\<^verbatim>\<open>title.match(/\$(.*?)\$/g)\<close>: the matches from left to right. The dot does not
  match a line terminator, so an opening dollar sign followed by a line terminator
  before the next dollar sign opens no match; the text in between holds no dollar sign,
  so the search resumes after it. The first argument is the text read since the opening
  dollar sign, if one is open.\<close>

definition is_line_terminator :: "char \<Rightarrow> bool" where
  "is_line_terminator c = (c = CHR 0x0A \<or> c = CHR 0x0D)"

fun scan_envs :: "string option \<Rightarrow> string \<Rightarrow> string list" where
  "scan_envs st [] = []"
| "scan_envs None (c # cs) =
     (if c = CHR ''$'' then scan_envs (Some []) cs else scan_envs None cs)"
| "scan_envs (Some acc) (c # cs) =
     (if c = CHR ''$'' then (CHR ''$'' # acc @ [CHR ''$'']) # scan_envs None cs
      else if is_line_terminator c then scan_envs None cs
      else scan_envs (Some (acc @ [c])) cs)"

definition match_envs :: "string \<Rightarrow> string list" where
  "match_envs t = scan_envs None t"

text \<open>Lines 363-369.\<close>

definition escapeLaTexString :: "string \<Rightarrow> string" where
  "escapeLaTexString str =
     replaceAll_char CHR ''#'' [CHR 0x5C, CHR ''#'']
       (replaceAll_char CHR ''%'' [CHR 0x5C, CHR ''%'']
         (replaceAll_char CHR ''&'' [CHR 0x5C, CHR ''&''] str))"

subsection \<open>Failures, collaborators and the mutable state\<close>

text \<open>A raised exception is a value of this type.\<close>

datatype failure = TypeError | IOError | DelegateError

text \<open>The value an XML parser returns: undefined, a primitive, or an object with named
  properties. Reading a property of \<^verbatim>\<open>undefined\<close> raises a TypeError; reading a missing
  property of anything else gives \<^verbatim>\<open>undefined\<close>.\<close>

datatype jsval = Undefined | Prim string | Obj "(string \<times> jsval) list"

fun get_prop :: "jsval \<Rightarrow> string \<Rightarrow> failure + jsval" where
  "get_prop Undefined k = Inl TypeError"
| "get_prop (Prim v) k = Inr Undefined"
| "get_prop (Obj fs) k = Inr (case map_of fs k of None \<Rightarrow> Undefined | Some v \<Rightarrow> v)"

text \<open>What the service imports and does not define: \<^verbatim>\<open>formatString\<close> (with the flags of
  the call in \<^verbatim>\<open>parseSingle\<close>), the formatters of citation-js for \<^verbatim>\<open>bibtex\<close> and for
  \<^verbatim>\<open>bibliography\<close> (the latter reads the registered templates), what citation-js makes
  of a text and of an input no plugin predicate accepts, the XML parser, and the
  functions of \<^verbatim>\<open>path\<close> and \<^verbatim>\<open>fs\<close>. They are parameters of the model.\<close>

record externals =
  format_string :: "string \<Rightarrow> string"
  format_bibtex :: "csl list \<Rightarrow> failure + string"
  format_bibliography :: "(string \<times> string) list \<Rightarrow> string \<Rightarrow> csl list \<Rightarrow> failure + string"
  cite_of_text :: "string \<Rightarrow> failure + csl list"
  cite_unrecognised :: "failure + csl list"
  xml_parse :: "string \<Rightarrow> failure + jsval"
  path_join :: "string \<Rightarrow> string \<Rightarrow> string"
  path_basename :: "string \<Rightarrow> string \<Rightarrow> string"
  existsSync :: "string \<Rightarrow> bool"
  readFileSync :: "string \<Rightarrow> failure + string"
  readdirSync :: "string \<Rightarrow> failure + string list"

text \<open>The preferences the service reads. \<^verbatim>\<open>exportReplacement\<close> is \<open>None\<close> when the
  stored value is not an array of pairs, so that \<^verbatim>\<open>.map\<close> on it raises.\<close>

record prefs =
  enableExportReplacement :: bool
  exportReplacement :: "(string \<times> string) list option"
  selectedCSLStyle :: string
  importedCSLStylesPath :: string

text \<open>The mutable state: the objects of class \<^verbatim>\<open>PaperEntity\<close> (a reference is an index
  into \<open>heap\<close>), the messages given to the log service, the texts written to the
  clipboard, and the templates registered with the CSL plugin of citation-js, as pairs
  of key and template text, the latest first.\<close>

record world =
  heap :: "paper_entity list"
  logs :: "string list"
  clipboard :: "string list"
  templates :: "(string \<times> string) list"

definition heap_get :: "world \<Rightarrow> nat \<Rightarrow> paper_entity option" where
  "heap_get w r = (if r < length (heap w) then Some (heap w ! r) else None)"

definition log_error :: "string \<Rightarrow> world \<Rightarrow> world" where
  "log_error msg w = w\<lparr>logs := logs w @ [msg]\<rparr>"

text \<open>Modelled from the spec: the decorator \<^verbatim>\<open>errorcatching\<close> of \<^verbatim>\<open>@/base/error\<close> is not
  among the sources. The spec (4.8 and 7) says a failure inside a decorated entry point
  is caught, logged with the fixed message, and replaced by the fallback value given to
  the decorator. The first argument is the message, the second the fallback.\<close>

definition errorcatching :: "string \<Rightarrow> 'a \<Rightarrow> world \<times> (failure + 'a) \<Rightarrow> world \<times> 'a" where
  "errorcatching msg dflt r =
     (case r of
        (w, Inl e) \<Rightarrow> (log_error msg w, dflt)
      | (w, Inr v) \<Rightarrow> (w, v))"

subsection \<open>replacePublication and toCite\<close>

text \<open>\<^verbatim>\<open>new Map(pairs)\<close>: a later pair with the same key replaces an earlier one.\<close>

definition new_Map :: "(string \<times> string) list \<Rightarrow> (string \<rightharpoonup> string)" where
  "new_Map items = foldl (\<lambda>m (k, v). m(k \<mapsto> v)) Map.empty items"

text \<open>Lines 142-155, the body of the \<^verbatim>\<open>try\<close>. The assignment of line 152 writes into
  the object the argument refers to.\<close>

definition replacePublication_try :: "prefs \<Rightarrow> world \<Rightarrow> nat \<Rightarrow> failure + world" where
  "replacePublication_try pr w source =
     (if enableExportReplacement pr then
        (case exportReplacement pr of
           None \<Rightarrow> Inl TypeError
         | Some pubReplacement \<Rightarrow>
             (let pubMap = new_Map pubReplacement in
              case heap_get w source of
                None \<Rightarrow> Inl TypeError
              | Some src \<Rightarrow>
                  (case pubMap (publication src) of
                     Some to \<Rightarrow> Inr (w\<lparr>heap := (heap w)[source := src\<lparr>publication := to\<rparr>]\<rparr>)
                   | None \<Rightarrow> Inr w)))
      else Inr w)"

text \<open>Lines 140-165: both exits return the reference that was passed in.\<close>

definition replacePublication :: "prefs \<Rightarrow> world \<Rightarrow> nat \<Rightarrow> world \<times> nat" where
  "replacePublication pr w source =
     (case replacePublication_try pr w source of
        Inr w' \<Rightarrow> (w', source)
      | Inl e \<Rightarrow> (log_error ''Failed to abbreviate publication name.'' w, source))"

text \<open>\<^verbatim>\<open>source.map((item) => this.replacePublication(item))\<close>, from left to right.\<close>

fun replace_all :: "prefs \<Rightarrow> world \<Rightarrow> nat list \<Rightarrow> world \<times> nat list" where
  "replace_all pr w [] = (w, [])"
| "replace_all pr w (item # items) =
     (let (w1, r) = replacePublication pr w item;
          (w2, rs) = replace_all pr w1 items
      in (w2, r # rs))"

text \<open>The objects a list of references points to; a reference to nothing makes the
  first read of a field raise.\<close>

fun deref_all :: "world \<Rightarrow> nat list \<Rightarrow> failure + paper_entity list" where
  "deref_all w [] = Inr []"
| "deref_all w (r # rs) =
     (case heap_get w r of
        None \<Rightarrow> Inl TypeError
      | Some v \<Rightarrow> (case deref_all w rs of Inl e \<Rightarrow> Inl e | Inr vs \<Rightarrow> Inr (v # vs)))"

text \<open>\<^verbatim>\<open>new Cite(x)\<close> for one entity and for an array of entities: citation-js hands the
  input to the plugin whose predicate accepts it (lines 111-124).\<close>

definition new_Cite_single :: "externals \<Rightarrow> world \<Rightarrow> nat \<Rightarrow> failure + csl list" where
  "new_Cite_single ext w r =
     (case heap_get w r of
        None \<Rightarrow> Inl TypeError
      | Some v \<Rightarrow> if predicateSingle v then Inr [parseSingle (format_string ext) v]
                  else cite_unrecognised ext)"

definition new_Cite_multi :: "externals \<Rightarrow> world \<Rightarrow> nat list \<Rightarrow> failure + csl list" where
  "new_Cite_multi ext w rs =
     (case deref_all w rs of
        Inl e \<Rightarrow> Inl e
      | Inr vs \<Rightarrow> if predicateMulti vs then Inr (parseMulti (format_string ext) vs)
                   else cite_unrecognised ext)"

datatype cite_source = SrcText string | SrcEntity nat | SrcEntities "nat list"

text \<open>Lines 178-188, and the decorator of lines 172-177 with fallback \<^verbatim>\<open>null\<close>.\<close>

fun toCite_body :: "externals \<Rightarrow> prefs \<Rightarrow> world \<Rightarrow> cite_source \<Rightarrow> world \<times> (failure + csl list option)" where
  "toCite_body ext pr w (SrcText t) = (w, map_sum id Some (cite_of_text ext t))"
| "toCite_body ext pr w (SrcEntity r) =
     (let (w1, r1) = replacePublication pr w r
      in (w1, map_sum id Some (new_Cite_single ext w1 r1)))"
| "toCite_body ext pr w (SrcEntities rs) =
     (let (w1, rs1) = replace_all pr w rs
      in (w1, map_sum id Some (new_Cite_multi ext w1 rs1)))"

definition toCite :: "externals \<Rightarrow> prefs \<Rightarrow> world \<Rightarrow> cite_source \<Rightarrow> world \<times> csl list option" where
  "toCite ext pr w source =
     errorcatching ''Failed to convert paper entity to cite object.'' None
       (toCite_body ext pr w source)"

subsection \<open>The three renderers\<close>

text \<open>Lines 201-203 with the decorator of lines 195-200 (fallback the empty string).
  \<^verbatim>\<open>cite\<close> is \<open>None\<close> when \<^verbatim>\<open>toCite\<close> returned \<^verbatim>\<open>null\<close>; calling a method on it raises.\<close>

definition exportBibTexKey :: "world \<Rightarrow> csl list option \<Rightarrow> world \<times> string" where
  "exportBibTexKey w cite =
     errorcatching ''Failed to convert cite object to BibTex Key.'' ''''
       (case cite of
          None \<Rightarrow> (w, Inl TypeError)
        | Some data \<Rightarrow> (w, Inr (format_bibtex_key data)))"

text \<open>The two tokens of lines 226 and 237-238. The template literals hold no
  interpolation, so each is the same text for every index.\<close>

definition placeholder :: string where
  "placeholder = ''MATHENVDOLLAR{i}''"

definition placeholder_braced :: string where
  "placeholder_braced = ''{MATHENVDOLLAR}{i}''"

text \<open>Lines 224-228 for one title: each match is replaced, first occurrence first.\<close>

definition protect_title :: "string \<Rightarrow> string" where
  "protect_title t = foldl (\<lambda>t env. js_replace t env placeholder) t (match_envs t)"

text \<open>Lines 217-231: the titles after the loop and the collected spans.\<close>

definition protect_math :: "csl list \<Rightarrow> csl list \<times> string list" where
  "protect_math data =
     (map (\<lambda>c. c\<lparr>csl_title := protect_title (csl_title c)\<rparr>) data,
      concat (map (\<lambda>c. match_envs (csl_title c)) data))"

text \<open>Lines 235-239.\<close>

definition restore_math :: "string list \<Rightarrow> string \<Rightarrow> string" where
  "restore_math mathEnvStrs body =
     foldl (\<lambda>bibtexBody m. js_replace (js_replace bibtexBody placeholder m) placeholder_braced m)
       body mathEnvStrs"

text \<open>Lines 216-242 with the decorator of lines 210-215. The result also holds the
  data of the cite object, whose titles the function has overwritten.\<close>

definition exportBibTexBody ::
  "externals \<Rightarrow> world \<Rightarrow> csl list option \<Rightarrow> (world \<times> string) \<times> csl list option" where
  "exportBibTexBody ext w cite =
     (case cite of
        None \<Rightarrow>
          (errorcatching ''Failed to convert cite object to BibTex string.'' '''' (w, Inl TypeError),
           None)
      | Some data \<Rightarrow>
          (let (data', mathEnvStrs) = protect_math data in
           (errorcatching ''Failed to convert cite object to BibTex string.'' ''''
              (case format_bibtex ext data' of
                 Inl e \<Rightarrow> (w, Inl e)
               | Inr rendered \<Rightarrow> (w, Inr (restore_math mathEnvStrs (escapeLaTexString rendered)))),
            Some data')))"

definition builtin_styles :: "string list" where
  "builtin_styles = [''apa'', ''vancouver'', ''harvard1'']"

definition cite_format_bibliography ::
  "externals \<Rightarrow> world \<Rightarrow> string \<Rightarrow> csl list option \<Rightarrow> failure + string" where
  "cite_format_bibliography ext w template cite =
     (case cite of
        None \<Rightarrow> Inl TypeError
      | Some data \<Rightarrow> format_bibliography ext (templates w) template data)"

text \<open>Lines 244-274. The function has no decorator: a failure leaves it.\<close>

definition exportPlainText ::
  "externals \<Rightarrow> prefs \<Rightarrow> world \<Rightarrow> csl list option \<Rightarrow> world \<times> (failure + string)" where
  "exportPlainText ext pr w cite =
     (let csl = selectedCSLStyle pr in
      if csl \<in> set builtin_styles then (w, cite_format_bibliography ext w csl cite)
      else
        (let templatePath = path_join ext (importedCSLStylesPath pr) (csl @ ''.csl'') in
         if existsSync ext templatePath then
           (if map_of (templates w) csl = None then
              (case readFileSync ext templatePath of
                 Inl e \<Rightarrow> (w, Inl e)
               | Inr template \<Rightarrow>
                   (let w' = w\<lparr>templates := (csl, template) # templates w\<rparr>
                    in (w', cite_format_bibliography ext w' csl cite)))
            else (w, cite_format_bibliography ext w csl cite))
         else
           (let w' = log_error (''CSL template file: '' @ csl @ ''.csl not found.'') w
            in (w', cite_format_bibliography ext w' ''apa'' cite))))"

subsection \<open>export\<close>

text \<open>Modelled from the spec: the class \<^verbatim>\<open>PaperEntity\<close> and its constructor are not among
  the sources. The spec (4.8) says each record is deep-copied into a working draft:
  \<^verbatim>\<open>new PaperEntity(e)\<close> allocates a new object with the fields of \<^verbatim>\<open>e\<close>.\<close>

definition new_PaperEntity :: "world \<Rightarrow> paper_entity \<Rightarrow> world \<times> nat" where
  "new_PaperEntity w e = (w\<lparr>heap := heap w @ [e]\<rparr>, length (heap w))"

text \<open>\<^verbatim>\<open>paperEntities.map((paperEntity) => new PaperEntity(paperEntity))\<close>. The caller's
  records are given by value: nothing but the constructor reads them.\<close>

fun make_drafts :: "world \<Rightarrow> paper_entity list \<Rightarrow> world \<times> nat list" where
  "make_drafts w [] = (w, [])"
| "make_drafts w (e # es) =
     (let (w1, d) = new_PaperEntity w e;
          (w2, ds) = make_drafts w1 es
      in (w2, d # ds))"

definition clipboard_writeText :: "string \<Rightarrow> world \<Rightarrow> world" where
  "clipboard_writeText str w = w\<lparr>clipboard := clipboard w @ [str]\<rparr>"

text \<open>Lines 282-297 without the decorator: the world at the point reached, and the
  failure if one left the body.\<close>

definition export_body ::
  "externals \<Rightarrow> prefs \<Rightarrow> world \<Rightarrow> paper_entity list \<Rightarrow> string \<Rightarrow> world \<times> (failure + unit)" where
  "export_body ext pr w paperEntities format =
     (case make_drafts w paperEntities of
        (w1, paperEntityDrafts) \<Rightarrow>
          (if format = ''BibTex'' then
             (let (w2, cite) = toCite ext pr w1 (SrcEntities paperEntityDrafts);
                  ((w3, copyStr), cite') = exportBibTexBody ext w2 cite
              in (clipboard_writeText copyStr w3, Inr ()))
           else if format = ''BibTex-Key'' then
             (let (w2, cite) = toCite ext pr w1 (SrcEntities paperEntityDrafts);
                  (w3, copyStr) = exportBibTexKey w2 cite
              in (clipboard_writeText copyStr w3, Inr ()))
           else if format = ''PlainText'' then
             (let (w2, cite) = toCite ext pr w1 (SrcEntities paperEntityDrafts)
              in case exportPlainText ext pr w2 cite of
                   (w3, Inl e) \<Rightarrow> (w3, Inl e)
                 | (w3, Inr copyStr) \<Rightarrow> (clipboard_writeText copyStr w3, Inr ()))
           else (clipboard_writeText '''' w1, Inr ())))"

text \<open>Line 281: the decorator, with no fallback value.\<close>

definition export :: "externals \<Rightarrow> prefs \<Rightarrow> world \<Rightarrow> paper_entity list \<Rightarrow> string \<Rightarrow> world" where
  "export ext pr w paperEntities format =
     fst (errorcatching ''Failed to export paper entities.'' ()
            (export_body ext pr w paperEntities format))"

subsection \<open>loadCSLStyles\<close>

text \<open>An entry of the listing. The name of an imported style is whatever value the
  parsed file holds at \<^verbatim>\<open>style.info.title\<close>.\<close>

record style_entry =
  key :: string
  name :: jsval

text \<open>Lines 305-318.\<close>

definition CSLStyles :: "style_entry list" where
  "CSLStyles =
     [\<lparr>key = ''apa'', name = Prim ''American Psychological Association''\<rparr>,
      \<lparr>key = ''vancouver'', name = Prim ''Vancouver''\<rparr>,
      \<lparr>key = ''harvard1'', name = Prim ''Harvard1''\<rparr>]"

text \<open>\<^verbatim>\<open>s.endsWith(suffix)\<close>.\<close>

definition endsWith :: "string \<Rightarrow> string \<Rightarrow> bool" where
  "endsWith s suffix =
     (length suffix \<le> length s \<and> drop (length s - length suffix) s = suffix)"

text \<open>Line 333, \<^verbatim>\<open>xml.style.info.title\<close>: three property reads, each of which raises on
  \<^verbatim>\<open>undefined\<close>.\<close>

definition style_info_title :: "jsval \<Rightarrow> failure + jsval" where
  "style_info_title xml =
     (case get_prop xml ''style'' of
        Inl e \<Rightarrow> Inl e
      | Inr style \<Rightarrow>
          (case get_prop style ''info'' of
             Inl e \<Rightarrow> Inl e
           | Inr info \<Rightarrow> get_prop info ''title''))"

text \<open>Lines 329-339. Reading and parsing the file stand before the \<^verbatim>\<open>try\<close>: their
  failure rejects the promise. A failure inside the \<^verbatim>\<open>try\<close> gives \<^verbatim>\<open>null\<close>.\<close>

definition parsePromise :: "externals \<Rightarrow> string \<Rightarrow> failure + style_entry option" where
  "parsePromise ext filePath =
     (case readFileSync ext filePath of
        Inl e \<Rightarrow> Inl e
      | Inr fileContent \<Rightarrow>
          (case xml_parse ext fileContent of
             Inl e \<Rightarrow> Inl e
           | Inr xml \<Rightarrow>
               (case style_info_title xml of
                  Inl e \<Rightarrow> Inr None
                | Inr title_value \<Rightarrow>
                    Inr (Some \<lparr>key = path_basename ext filePath ''.csl'', name = title_value\<rparr>))))"

text \<open>\<^verbatim>\<open>await Promise.all(promises)\<close>: the values in the order of the promises, or the
  failure of the first rejected one.\<close>

fun promise_all :: "(failure + 'a) list \<Rightarrow> failure + 'a list" where
  "promise_all [] = Inr []"
| "promise_all (Inl e # ps) = Inl e"
| "promise_all (Inr v # ps) = (case promise_all ps of Inl e \<Rightarrow> Inl e | Inr vs \<Rightarrow> Inr (v # vs))"

text \<open>Lines 304-360 without the decorator. An empty path is falsy.\<close>

definition loadCSLStyles_body :: "externals \<Rightarrow> prefs \<Rightarrow> failure + style_entry list" where
  "loadCSLStyles_body ext pr =
     (let importedCSLStylesPath = importedCSLStylesPath pr in
      if importedCSLStylesPath \<noteq> [] then
        (case readdirSync ext importedCSLStylesPath of
           Inl e \<Rightarrow> Inl e
         | Inr files \<Rightarrow>
             (let promises =
                    map (\<lambda>file. parsePromise ext (path_join ext importedCSLStylesPath file))
                      (filter (\<lambda>file. endsWith file ''.csl'') files)
              in case promise_all promises of
                   Inl e \<Rightarrow> Inl e
                 | Inr items \<Rightarrow>
                     (let importedCSLStyles = map the (filter (\<lambda>item. item \<noteq> None) items)
                      in Inr (CSLStyles @ importedCSLStyles))))
      else Inr CSLStyles)"

text \<open>Line 303: the decorator, with the empty list as fallback.\<close>

definition loadCSLStyles :: "externals \<Rightarrow> prefs \<Rightarrow> world \<Rightarrow> world \<times> style_entry list" where
  "loadCSLStyles ext pr w =
     errorcatching ''Failed to load CSL styles.'' [] (w, loadCSLStyles_body ext pr)"

subsection \<open>Concrete inputs\<close>

text \<open>A record as the application's test data has it.\<close>

definition paper0 :: paper_entity where
  "paper0 =
     \<lparr>pe_id = ''1'', authors = ''Jiawei Ren, Cunjun Yu'',
      title = ''Balanced Meta-Softmax for Long-Tailed Visual Recognition'',
      publication = ''NeurIPS'', publisher = '''', pubTime = ''2020'', pages = '''',
      volume = '''', number = '''', doi = '''', pubType = 1, codes = Some []\<rparr>"

definition world0 :: world where
  "world0 = \<lparr>heap = [paper0], logs = [], clipboard = [], templates = []\<rparr>"

definition prefs0 :: prefs where
  "prefs0 =
     \<lparr>enableExportReplacement = True,
      exportReplacement =
        Some [(''NeurIPS'', ''Conference on Neural Information Processing Systems (NeurIPS)'')],
      selectedCSLStyle = ''mystyle'',
      importedCSLStylesPath = ''styles''\<rparr>"

text \<open>Collaborators for the concrete inputs: a style directory \<^verbatim>\<open>styles\<close> with three
  style files and one other file, an XML parser that knows the three contents, and
  formatters that render every entry by its title.\<close>

definition xml_ieee :: string where
  "xml_ieee = ''<style><info><title>IEEE</title></info></style>''"

definition xml_nameless :: string where
  "xml_nameless = ''<style><info><id>x</id></info></style>''"

definition xml_parse0 :: "string \<Rightarrow> failure + jsval" where
  "xml_parse0 content =
     Inr (if content = xml_ieee
          then Obj [(''style'', Obj [(''info'', Obj [(''title'', Prim ''IEEE'')])])]
          else if content = xml_nameless
          then Obj [(''style'', Obj [(''info'', Obj [(''id'', Prim ''x'')])])]
          else Obj [])"

definition path_join0 :: "string \<Rightarrow> string \<Rightarrow> string" where
  "path_join0 dir file = dir @ ''/'' @ file"

definition path_basename0 :: "string \<Rightarrow> string \<Rightarrow> string" where
  "path_basename0 p suffix =
     (let b = last (split_str CHR ''/'' p)
      in if endsWith b suffix then take (length b - length suffix) b else b)"

definition files0 :: "(string \<times> string) list" where
  "files0 =
     [(''styles/ieee.csl'', xml_ieee),
      (''styles/nameless.csl'', xml_nameless),
      (''styles/notes.txt'', ''to do''),
      (''styles/void.csl'', '''')]"

definition readFileSync0 :: "string \<Rightarrow> failure + string" where
  "readFileSync0 p = (case map_of files0 p of None \<Rightarrow> Inl IOError | Some content \<Rightarrow> Inr content)"

definition readdirSync0 :: "string \<Rightarrow> failure + string list" where
  "readdirSync0 dir =
     (if dir = ''styles'' then Inr [''ieee.csl'', ''nameless.csl'', ''notes.txt'', ''void.csl'']
      else Inl IOError)"

definition format_bibtex0 :: "csl list \<Rightarrow> failure + string" where
  "format_bibtex0 data = Inr (concat (map (\<lambda>c. ''title = {'' @ csl_title c @ ''}, '') data))"

definition format_bibliography0 ::
  "(string \<times> string) list \<Rightarrow> string \<Rightarrow> csl list \<Rightarrow> failure + string" where
  "format_bibliography0 registered template data =
     (if template \<in> set builtin_styles \<or> map_of registered template \<noteq> None
      then Inr (concat (map (\<lambda>c. csl_title c @ ''. '') data))
      else Inl DelegateError)"

definition ext0 :: externals where
  "ext0 =
     \<lparr>format_string = id,
      format_bibtex = format_bibtex0,
      format_bibliography = format_bibliography0,
      cite_of_text = (\<lambda>t. Inr []),
      cite_unrecognised = Inr [],
      xml_parse = xml_parse0,
      path_join = path_join0,
      path_basename = path_basename0,
      existsSync = (\<lambda>p. map_of files0 p \<noteq> None \<or> p = ''styles''),
      readFileSync = readFileSync0,
      readdirSync = readdirSync0\<rparr>"

text \<open>The same collaborators over a file system where the selected style's file
  \<^verbatim>\<open>styles/mystyle.csl\<close> exists and cannot be read (a directory of that name).\<close>

definition ext_unreadable :: externals where
  "ext_unreadable =
     ext0\<lparr>existsSync := (\<lambda>p. p = ''styles/mystyle.csl''),
          readFileSync := (\<lambda>p. Inl IOError)\<rparr>"

text \<open>The same collaborators with a bibtex formatter that ends its output with a line
  feed, also when there are no entries.\<close>

definition ext_newline :: externals where
  "ext_newline =
     ext0\<lparr>format_bibtex :=
            (\<lambda>data. Inr (concat (map (\<lambda>c. ''title = {'' @ csl_title c @ ''}, '') data)
                           @ [CHR 0x0A]))\<rparr>"

text \<open>Two entries: the title of the specification's example, with an ampersand added,
  and a title with display math.\<close>

definition csl_inline :: csl where
  "csl_inline =
     (parseSingle id paper0)
       \<lparr>csl_title := ''A $O(n '' @ [CHR 0x5C] @ ''log n)$ Algorithm & More''\<rparr>"

definition csl_display :: csl where
  "csl_display = (parseSingle id paper0)\<lparr>csl_title := ''Bounds on $$x$$''\<rparr>"

section \<open>Properties\<close>

subsection \<open>Splitting and joining\<close>

lemmas lower_simps = toLowerCase_def lower_char_def upper_units_def lower_units_def

lemma split_str_not_Nil: "split_str d s \<noteq> []"
  by (induction s) (auto split: list.splits)

lemma join_split_str: "join_str [d] (split_str d s) = s"
proof (induction s)
  case Nil
  show ?case by simp
next
  case (Cons c cs)
  obtain w ws where ws: "split_str d cs = w # ws"
    using split_str_not_Nil [of d cs] by (cases "split_str d cs") auto
  show ?case
  proof (cases "c = d")
    case True
    with Cons ws show ?thesis by simp
  next
    case False
    with Cons ws show ?thesis by (cases ws) auto
  qed
qed

lemma split_str_no_sep: "tok \<in> set (split_str d s) \<Longrightarrow> d \<notin> set tok"
proof (induction s arbitrary: tok)
  case Nil
  then show ?case by simp
next
  case (Cons c cs)
  obtain w ws where ws: "split_str d cs = w # ws"
    using split_str_not_Nil [of d cs] by (cases "split_str d cs") auto
  show ?case
  proof (cases "c = d")
    case True
    with Cons ws show ?thesis by auto
  next
    case False
    with Cons.prems ws have "tok = c # w \<or> tok \<in> set ws" by auto
    then show ?thesis
    proof
      assume "tok = c # w"
      moreover have "d \<notin> set w" using Cons.IH [of w] ws by simp
      ultimately show ?thesis using False by auto
    next
      assume "tok \<in> set ws"
      then show ?thesis using Cons.IH [of tok] ws by simp
    qed
  qed
qed

lemma split_str_without_sep: "d \<notin> set s \<Longrightarrow> split_str d s = [s]"
  by (induction s) auto

lemma parse_name_pieces:
  "family (parse_name tok) = last (split_str CHR '' '' (trim tok))"
  "given (parse_name tok) = join_str '' '' (butlast (split_str CHR '' '' (trim tok)))"
  using split_str_not_Nil [of "CHR '' ''" "trim tok"]
  by (simp_all add: parse_name_def Let_def last_conv_nth butlast_conv_take)

subsection \<open>The author name parser\<close>

text \<open>
  C6. The parser chooses one delimiter for the whole string: the semicolon if the string
  holds one, else the comma. The tokens are the pieces of the string between the
  delimiters (joined by the delimiter they give the string back, and none holds the
  delimiter). For every token, the pieces of the trimmed token between single spaces
  (again characterised by joining and by holding no space) give the name: the last piece
  is the family name, the pieces before it joined by single spaces are the given name;
  a trimmed token without a space gives an empty given name and itself as family name.
  The specification's example parses as it says.
\<close>

theorem parse_authors_delimiter_and_names:
  assumes "d = (if CHR '';'' \<in> set s then CHR '';'' else CHR '','')"
  shows "parse_authors s = map parse_name (split_str d s)
       \<and> join_str [d] (split_str d s) = s
       \<and> (\<forall>tok \<in> set (split_str d s). d \<notin> set tok)
       \<and> (\<forall>tok. family (parse_name tok) = last (split_str CHR '' '' (trim tok))
              \<and> given (parse_name tok) = join_str '' '' (butlast (split_str CHR '' '' (trim tok)))
              \<and> join_str '' '' (split_str CHR '' '' (trim tok)) = trim tok
              \<and> (\<forall>piece \<in> set (split_str CHR '' '' (trim tok)). CHR '' '' \<notin> set piece)
              \<and> (CHR '' '' \<notin> set (trim tok) \<longrightarrow>
                   parse_name tok = \<lparr>given = '''', family = trim tok\<rparr>))
       \<and> parse_authors ''Jane Doe; John A. Smith''
           = [\<lparr>given = ''Jane'', family = ''Doe''\<rparr>, \<lparr>given = ''John A.'', family = ''Smith''\<rparr>]"
proof -
  have a: "parse_authors s = map parse_name (split_str d s)"
    using assms by (simp add: parse_authors_def includes_char_def)
  have b: "\<forall>tok \<in> set (split_str d s). d \<notin> set tok"
    using split_str_no_sep by blast
  have c: "\<forall>piece \<in> set (split_str CHR '' '' (trim tok)). CHR '' '' \<notin> set piece" for tok
    using split_str_no_sep by blast
  have e: "CHR '' '' \<notin> set (trim tok) \<longrightarrow> parse_name tok = \<lparr>given = '''', family = trim tok\<rparr>" for tok
    by (simp add: parse_name_def split_str_without_sep)
  have f: "parse_authors ''Jane Doe; John A. Smith''
           = [\<lparr>given = ''Jane'', family = ''Doe''\<rparr>, \<lparr>given = ''John A.'', family = ''Smith''\<rparr>]"
    by (simp add: parse_authors_def parse_name_def includes_char_def trim_def is_js_space_def)
  show ?thesis
    using a b c e f join_split_str [of "CHR '' ''"] join_split_str [of d s] parse_name_pieces
    by simp
qed

theorem parse_authors_delimiter_and_names_witness:
  "parse_authors ''Jiawei Ren, Cunjun Yu''
     = [\<lparr>given = ''Jiawei'', family = ''Ren''\<rparr>, \<lparr>given = ''Cunjun'', family = ''Yu''\<rparr>]
   \<and> join_str '','' (split_str CHR '','' ''Jiawei Ren, Cunjun Yu'') = ''Jiawei Ren, Cunjun Yu''"
  using parse_authors_delimiter_and_names [of "CHR '',''" "''Jiawei Ren, Cunjun Yu''"]
  by (simp add: parse_name_def trim_def is_js_space_def)

text \<open>
  C4, as the code has it. For the empty author string the parser produces a sequence of
  one name, whose given name and family name are both empty: splitting the empty string
  gives one empty token. Nothing in the parser can fail.
\<close>

theorem empty_authors_one_empty_name:
  "author (parseSingle fmt (p\<lparr>authors := ''''\<rparr>)) = [\<lparr>given = '''', family = ''''\<rparr>]"
  by (simp add: parseSingle_def Let_def parse_authors_def parse_name_def includes_char_def trim_def)

theorem empty_authors_one_empty_name_witness:
  "author (parseSingle id (paper0\<lparr>authors := ''''\<rparr>)) = [\<lparr>given = '''', family = ''''\<rparr>]"
  using empty_authors_one_empty_name [of id paper0] by simp

text \<open>C4 as stated fails: the sequence for the empty author string is not empty.\<close>

theorem empty_authors_counterexample:
  "author (parseSingle id (paper0\<lparr>authors := ''''\<rparr>)) \<noteq> []"
  by (simp add: parseSingle_def Let_def parse_authors_def)

subsection \<open>The type of the citation\<close>

text \<open>
  C5, as the code has it. The type codes 0, 1, 2 and 3 give the types article,
  paper-conference, article and book; every other code gives no type at all (the array
  read yields undefined), not a default.
\<close>

theorem type_of_code_table:
  "csl_type (parseSingle fmt p) =
     (if pubType p = 0 \<or> pubType p = 2 then Some ''article''
      else if pubType p = 1 then Some ''paper-conference''
      else if pubType p = 3 then Some ''book''
      else None)"
proof -
  have "0 \<le> k \<Longrightarrow> k < 4 \<Longrightarrow> k = 0 \<or> k = 1 \<or> k = 2 \<or> k = 3" for k :: int by arith
  then show ?thesis
    by (auto simp add: parseSingle_def Let_def type_of_code_def type_names_def)
qed

theorem type_of_code_table_witness:
  "csl_type (parseSingle id (paper0\<lparr>pubType := 7\<rparr>)) = None
   \<and> csl_type (parseSingle id paper0) = Some ''paper-conference''"
  using type_of_code_table [of id "paper0\<lparr>pubType := 7\<rparr>"] type_of_code_table [of id paper0]
  by (simp add: paper0_def)

text \<open>C5 as stated fails: the code 4 is outside the recognised range and the type is
  absent, not article.\<close>

theorem type_default_counterexample:
  "csl_type (parseSingle id (paper0\<lparr>pubType := 4\<rparr>)) \<noteq> Some ''article''
   \<and> csl_type (parseSingle id (paper0\<lparr>pubType := 4\<rparr>)) = None"
  by (simp add: parseSingle_def Let_def type_of_code_def type_names_def)

subsection \<open>The citation key\<close>

text \<open>The condition of the loop holds for every word, so the loop ends at the first.\<close>

lemma title_loop_first_word: "title_loop fmt k (w # ws) = k @ fmt (toLowerCase w)"
  by auto

lemma cite_key_first_word:
  "citation_key (parseSingle fmt p) =
     toLowerCase (family (hd (parse_authors (authors p)))) @ pubTime p
       @ fmt (toLowerCase (hd (split_str CHR '' '' (title p))))"
proof -
  obtain w ws where "split_str CHR '' '' (title p) = w # ws"
    using split_str_not_Nil [of "CHR '' ''" "title p"] by (cases "split_str CHR '' '' (title p)") auto
  moreover obtain n ns where "parse_authors (authors p) = n # ns"
    using split_str_not_Nil
    by (cases "parse_authors (authors p)") (auto simp add: parse_authors_def split: if_splits)
  ultimately show ?thesis
    by (simp add: parseSingle_def Let_def cite_key_def)
qed

text \<open>
  C1 at the title "The Quick Fox". The key the code derives ends with the normalised
  first word, "the", a stop word of three letters; the selection the claim describes
  ends with the normalised "quick", the first word that is no stop word and longer than
  three characters.
\<close>

theorem title_fragment_skips_no_stop_word:
  "citation_key (parseSingle fmt (paper0\<lparr>title := ''The Quick Fox''\<rparr>)) = ''ren2020'' @ fmt ''the''
   \<and> spec_title_loop fmt ''ren2020'' (split_str CHR '' '' ''The Quick Fox'') = ''ren2020'' @ fmt ''quick''"
  by (simp add: parseSingle_def Let_def cite_key_def paper0_def parse_authors_def parse_name_def
        includes_char_def trim_def is_js_space_def lower_simps)

theorem title_fragment_skips_no_stop_word_witness:
  "citation_key (parseSingle id (paper0\<lparr>title := ''The Quick Fox''\<rparr>)) = ''ren2020the''"
  using title_fragment_skips_no_stop_word [of id] by simp

subsection \<open>replacePublication\<close>

lemma foldl_map_upd:
  "foldl (\<lambda>m (k, v). m(k \<mapsto> v)) m xs = m ++ map_of (rev xs)"
  by (induction xs arbitrary: m) (auto simp add: map_add_upd_left)

lemma new_Map_map_of: "new_Map items = map_of (rev items)"
  by (simp add: new_Map_def foldl_map_upd)

text \<open>
  C3, as the code has it. replacePublication returns the very reference it was given
  and rewrites the object in place. Afterwards the object differs from before in its
  publication field only: when rewriting is enabled, the replacement table is well
  formed and the publication equals the 'from' of some pair, the field holds the 'to'
  of the last such pair; otherwise it holds what it held. No other object, and neither
  the clipboard nor the registered templates, change.
\<close>

theorem replacePublication_rewrites_in_place:
  assumes "heap_get w source = Some src"
  shows "snd (replacePublication pr w source) = source
       \<and> heap_get (fst (replacePublication pr w source)) source =
           Some (src\<lparr>publication :=
             (case (if enableExportReplacement pr then exportReplacement pr else None) of
                None \<Rightarrow> publication src
              | Some pairs \<Rightarrow>
                  (case map_of (rev pairs) (publication src) of
                     None \<Rightarrow> publication src
                   | Some to \<Rightarrow> to))\<rparr>)
       \<and> (\<forall>r. r \<noteq> source \<longrightarrow> heap_get (fst (replacePublication pr w source)) r = heap_get w r)
       \<and> clipboard (fst (replacePublication pr w source)) = clipboard w
       \<and> templates (fst (replacePublication pr w source)) = templates w"
  using assms
  by (auto simp add: replacePublication_def replacePublication_try_def new_Map_map_of
        heap_get_def log_error_def Let_def split: option.splits if_splits)

theorem replacePublication_rewrites_in_place_witness:
  "heap_get world0 0 = Some paper0
   \<and> snd (replacePublication prefs0 world0 0) = 0
   \<and> heap_get (fst (replacePublication prefs0 world0 0)) 0 =
       Some (paper0\<lparr>publication := ''Conference on Neural Information Processing Systems (NeurIPS)''\<rparr>)"
  using replacePublication_rewrites_in_place [of world0 0 paper0 prefs0]
  by (simp add: heap_get_def world0_def prefs0_def paper0_def)

text \<open>C3 as stated fails: after the call the caller's object has another publication,
  and the value returned is the reference passed in, not a copy.\<close>

theorem replacePublication_counterexample:
  "publication (heap (fst (replacePublication prefs0 world0 0)) ! 0) \<noteq> publication (heap world0 ! 0)
   \<and> snd (replacePublication prefs0 world0 0) = 0"
  by (simp add: replacePublication_def replacePublication_try_def new_Map_def heap_get_def
        world0_def prefs0_def paper0_def)

subsection \<open>exportPlainText\<close>

text \<open>
  C7. When the selected style is none of apa, vancouver and harvard1 and the file of
  the custom style does not exist, exportPlainText gives the result it gives for the
  same cite data with the style apa selected (the same text, or the same failure of the
  formatter), and the world it leaves is the one it was given with the message about
  the missing file added to the log; with apa selected the world is left as it was.
\<close>

theorem exportPlainText_missing_style_file:
  assumes "selectedCSLStyle pr \<notin> set builtin_styles"
      and "\<not> existsSync ext (path_join ext (importedCSLStylesPath pr) (selectedCSLStyle pr @ ''.csl''))"
  shows "snd (exportPlainText ext pr w cite) = snd (exportPlainText ext (pr\<lparr>selectedCSLStyle := ''apa''\<rparr>) w cite)
       \<and> fst (exportPlainText ext pr w cite)
           = log_error (''CSL template file: '' @ selectedCSLStyle pr @ ''.csl not found.'') w
       \<and> fst (exportPlainText ext (pr\<lparr>selectedCSLStyle := ''apa''\<rparr>) w cite) = w"
  using assms
  by (simp add: exportPlainText_def Let_def builtin_styles_def cite_format_bibliography_def
        log_error_def split: option.splits)

theorem exportPlainText_missing_style_file_witness:
  "snd (exportPlainText ext0 prefs0 world0 (Some [csl_display]))
     = snd (exportPlainText ext0 (prefs0\<lparr>selectedCSLStyle := ''apa''\<rparr>) world0 (Some [csl_display]))
   \<and> logs (fst (exportPlainText ext0 prefs0 world0 (Some [csl_display])))
     = [''CSL template file: mystyle.csl not found.'']"
  using exportPlainText_missing_style_file [of prefs0 ext0 world0 "Some [csl_display]"]
  by (simp add: prefs0_def ext0_def world0_def builtin_styles_def path_join0_def files0_def
        log_error_def)

subsection \<open>export\<close>

lemma make_drafts_world:
  "fst (make_drafts w es) = w\<lparr>heap := heap w @ es\<rparr>"
proof (induction es arbitrary: w)
  case Nil
  show ?case by simp
next
  case (Cons e es)
  have "fst (make_drafts (w\<lparr>heap := heap w @ [e]\<rparr>) es) = w\<lparr>heap := heap w @ e # es\<rparr>"
    using Cons [of "w\<lparr>heap := heap w @ [e]\<rparr>"] by simp
  then show ?case
    by (auto simp add: new_PaperEntity_def split: prod.splits)
qed

text \<open>
  C10. For every sequence of records and every format other than BibTex, BibTex-Key and
  PlainText, the body of export ends without a failure, and the world export leaves is
  the one it was given with the drafts allocated and the empty string written to the
  clipboard once: the log and the templates are as before, and the result does not
  depend on any formatter.
\<close>

theorem export_unrecognised_format:
  assumes "format \<noteq> ''BibTex''" and "format \<noteq> ''BibTex-Key''" and "format \<noteq> ''PlainText''"
  shows "snd (export_body ext pr w paperEntities format) = Inr ()
       \<and> export ext pr w paperEntities format
           = clipboard_writeText '''' (w\<lparr>heap := heap w @ paperEntities\<rparr>)
       \<and> clipboard (export ext pr w paperEntities format) = clipboard w @ ['''']
       \<and> logs (export ext pr w paperEntities format) = logs w
       \<and> templates (export ext pr w paperEntities format) = templates w"
proof -
  obtain w1 ds where md: "make_drafts w paperEntities = (w1, ds)"
    by (cases "make_drafts w paperEntities")
  then have w1: "w1 = w\<lparr>heap := heap w @ paperEntities\<rparr>"
    using make_drafts_world [of w paperEntities] by simp
  have body: "export_body ext pr w paperEntities format = (clipboard_writeText '''' w1, Inr ())"
    using assms md by (simp add: export_body_def)
  show ?thesis
    using body w1 by (simp add: export_def errorcatching_def clipboard_writeText_def)
qed

theorem export_unrecognised_format_witness:
  "clipboard (export ext0 prefs0 world0 [paper0] ''Word'') = ['''']
   \<and> snd (export_body ext0 prefs0 world0 [paper0] ''Word'') = Inr ()"
  using export_unrecognised_format [of "''Word''" ext0 prefs0 world0 "[paper0]"]
  by (simp add: world0_def clipboard_writeText_def)

lemma toCite_no_entities:
  "toCite ext pr w (SrcEntities []) = (w, Some [])"
  by (simp add: toCite_def errorcatching_def new_Cite_multi_def predicateMulti_def parseMulti_def)

lemma exportBibTexKey_no_entries: "exportBibTexKey w (Some []) = (w, '''')"
  by (simp add: exportBibTexKey_def errorcatching_def format_bibtex_key_def)

lemma replaceAll_char_empty: "rep \<noteq> [] \<Longrightarrow> replaceAll_char c rep s = [] \<longleftrightarrow> s = []"
  by (cases s) (auto simp add: replaceAll_char_def)

lemma escapeLaTexString_empty: "escapeLaTexString s = [] \<longleftrightarrow> s = []"
  by (simp add: escapeLaTexString_def replaceAll_char_empty)

lemma exportBibTexBody_nothing:
  "snd (fst (exportBibTexBody ext w (Some []))) =
     (case format_bibtex ext [] of Inl e \<Rightarrow> '''' | Inr rendered \<Rightarrow> escapeLaTexString rendered)"
  "clipboard (fst (fst (exportBibTexBody ext w (Some [])))) = clipboard w"
  by (auto simp add: exportBibTexBody_def protect_math_def errorcatching_def restore_math_def
        log_error_def split: sum.splits)

text \<open>
  C9, as the code has it, for no records and any collaborators, preferences and world.

  With BibTex-Key the body of export ends without a failure and the empty string is
  written to the clipboard.

  With BibTex the body ends without a failure and the clipboard receives the escaped
  text that the bibtex formatter renders for no entries, or the empty string when that
  formatter fails; so it receives the empty string exactly when the formatter fails or
  renders no entries as the empty text.

  With PlainText the outcome is the rendering of no entries by the bibliography
  formatter under the resolved style: the selected built-in style; apa when the file of
  the custom style does not exist; the custom style when it is registered, or when its
  file can be read, with the file's text registered first. When the rendering is a
  text, the body ends without a failure and the clipboard receives that text. When the
  file exists, the style is not registered and the read fails, and whenever the
  rendering is a failure, the failure leaves the body, nothing is written to the
  clipboard, and export itself ends with the message of its error boundary as the last
  entry of the log (after a failed read, as the only new entry).
\<close>

theorem export_no_records:
  fixes ext :: externals and pr :: prefs and w :: world
  defines "csl \<equiv> selectedCSLStyle pr"
      and "templatePath \<equiv> path_join ext (importedCSLStylesPath pr) (selectedCSLStyle pr @ ''.csl'')"
  defines "rendering \<equiv>
       (if csl \<in> set builtin_styles then format_bibliography ext (templates w) csl []
        else if \<not> existsSync ext templatePath then format_bibliography ext (templates w) ''apa'' []
        else if map_of (templates w) csl \<noteq> None then format_bibliography ext (templates w) csl []
        else (case readFileSync ext templatePath of
                Inl e \<Rightarrow> Inl e
              | Inr template \<Rightarrow> format_bibliography ext ((csl, template) # templates w) csl []))"
  shows "snd (export_body ext pr w [] ''BibTex-Key'') = Inr ()
       \<and> clipboard (export ext pr w [] ''BibTex-Key'') = clipboard w @ ['''']
       \<and> snd (export_body ext pr w [] ''BibTex'') = Inr ()
       \<and> clipboard (export ext pr w [] ''BibTex'') =
           clipboard w @ [case format_bibtex ext [] of
                            Inl e \<Rightarrow> '''' | Inr rendered \<Rightarrow> escapeLaTexString rendered]
       \<and> (clipboard (export ext pr w [] ''BibTex'') = clipboard w @ ['''']
            \<longleftrightarrow> isl (format_bibtex ext []) \<or> format_bibtex ext [] = Inr '''')
       \<and> snd (export_body ext pr w [] ''PlainText'') = map_sum id (\<lambda>text. ()) rendering
       \<and> clipboard (export ext pr w [] ''PlainText'') =
           (case rendering of Inl e \<Rightarrow> clipboard w | Inr text \<Rightarrow> clipboard w @ [text])
       \<and> (\<forall>e. csl \<notin> set builtin_styles \<and> existsSync ext templatePath
               \<and> map_of (templates w) csl = None \<and> readFileSync ext templatePath = Inl e
             \<longrightarrow> snd (export_body ext pr w [] ''PlainText'') = Inl e
               \<and> clipboard (export ext pr w [] ''PlainText'') = clipboard w
               \<and> logs (export ext pr w [] ''PlainText'') = logs w @ [''Failed to export paper entities.''])
       \<and> (\<forall>e. rendering = Inl e
             \<longrightarrow> clipboard (export ext pr w [] ''PlainText'') = clipboard w
               \<and> last (logs (export ext pr w [] ''PlainText'')) = ''Failed to export paper entities.'')"
proof -
  have key: "snd (export_body ext pr w [] ''BibTex-Key'') = Inr ()
       \<and> clipboard (export ext pr w [] ''BibTex-Key'') = clipboard w @ ['''']"
    by (simp add: export_def export_body_def toCite_no_entities exportBibTexKey_no_entries
          errorcatching_def clipboard_writeText_def)
  obtain w3 s c where b: "exportBibTexBody ext w (Some []) = ((w3, s), c)"
    by (metis surj_pair)
  with exportBibTexBody_nothing [of ext w]
  have s: "s = (case format_bibtex ext [] of Inl e \<Rightarrow> '''' | Inr rendered \<Rightarrow> escapeLaTexString rendered)"
    and w3: "clipboard w3 = clipboard w"
    by simp_all
  have bib: "snd (export_body ext pr w [] ''BibTex'') = Inr ()
       \<and> clipboard (export ext pr w [] ''BibTex'') = clipboard w @ [s]"
    using b w3
    by (simp add: export_def export_body_def toCite_no_entities errorcatching_def
          clipboard_writeText_def)
  have s_empty: "s = '''' \<longleftrightarrow> isl (format_bibtex ext []) \<or> format_bibtex ext [] = Inr ''''"
    unfolding s by (cases "format_bibtex ext []") (simp_all add: escapeLaTexString_empty)
  have pt: "exportPlainText ext pr w (Some []) =
      (if csl \<in> set builtin_styles then (w, rendering)
       else if \<not> existsSync ext templatePath
       then (log_error (''CSL template file: '' @ csl @ ''.csl not found.'') w, rendering)
       else if map_of (templates w) csl \<noteq> None then (w, rendering)
       else (case readFileSync ext templatePath of
               Inl e \<Rightarrow> (w, rendering)
             | Inr template \<Rightarrow> (w\<lparr>templates := (csl, template) # templates w\<rparr>, rendering)))"
    unfolding rendering_def csl_def templatePath_def
    by (auto simp add: exportPlainText_def Let_def cite_format_bibliography_def log_error_def
          split: sum.splits)
  obtain w4 where w4: "exportPlainText ext pr w (Some []) = (w4, rendering)"
    and w4c: "clipboard w4 = clipboard w"
    and w4l: "csl \<notin> set builtin_styles \<and> existsSync ext templatePath
               \<and> map_of (templates w) csl = None \<and> isl (readFileSync ext templatePath)
              \<Longrightarrow> logs w4 = logs w"
    using pt by (auto simp add: log_error_def split: if_splits sum.splits)
  have plain: "snd (export_body ext pr w [] ''PlainText'') = map_sum id (\<lambda>text. ()) rendering
       \<and> clipboard (export ext pr w [] ''PlainText'') =
           (case rendering of Inl e \<Rightarrow> clipboard w | Inr text \<Rightarrow> clipboard w @ [text])
       \<and> logs (export ext pr w [] ''PlainText'') =
           (case rendering of
              Inl e \<Rightarrow> logs w4 @ [''Failed to export paper entities.'']
            | Inr text \<Rightarrow> logs w4)"
    using w4 w4c
    by (cases rendering)
       (simp_all add: export_def export_body_def toCite_no_entities errorcatching_def
          clipboard_writeText_def log_error_def)
  have unread: "rendering = Inl e"
    if "csl \<notin> set builtin_styles \<and> existsSync ext templatePath
        \<and> map_of (templates w) csl = None \<and> readFileSync ext templatePath = Inl e" for e
    using that by (simp add: rendering_def)
  show ?thesis
    using key bib s s_empty plain unread w4l by (auto split: sum.splits)
qed

theorem export_no_records_witness:
  "clipboard (export ext0 prefs0 world0 [] ''BibTex-Key'') = ['''']
   \<and> clipboard (export ext0 prefs0 world0 [] ''BibTex'') = ['''']
   \<and> clipboard (export ext0 prefs0 world0 [] ''PlainText'') = ['''']
   \<and> clipboard (export ext_unreadable prefs0 world0 [] ''PlainText'') = []
   \<and> logs (export ext_unreadable prefs0 world0 [] ''PlainText'') = [''Failed to export paper entities.'']"
  using export_no_records [of ext0 prefs0 world0] export_no_records [of ext_unreadable prefs0 world0]
  by (simp add: ext_unreadable_def ext0_def prefs0_def world0_def format_bibtex0_def
        format_bibliography0_def builtin_styles_def path_join0_def files0_def
        escapeLaTexString_def replaceAll_char_def)

text \<open>C9 as stated fails in two ways. With PlainText, a custom style selected and its
  file present but unreadable, the read fails, the failure leaves the body of export,
  and nothing is written to the clipboard. With BibTex and a formatter that ends its
  output with a line feed, nothing fails and the clipboard receives the line feed, not
  the empty string.\<close>

theorem export_no_records_counterexample:
  "clipboard (export ext_unreadable prefs0 world0 [] ''PlainText'') = []
   \<and> snd (export_body ext_unreadable prefs0 world0 [] ''PlainText'') = Inl IOError
   \<and> clipboard (export ext_newline prefs0 world0 [] ''BibTex'') = [[CHR 0x0A]]
   \<and> snd (export_body ext_newline prefs0 world0 [] ''BibTex'') = Inr ()"
  by (simp add: export_def export_body_def toCite_no_entities errorcatching_def
        exportPlainText_def Let_def ext_unreadable_def ext_newline_def ext0_def prefs0_def world0_def
        builtin_styles_def path_join0_def log_error_def exportBibTexBody_def protect_math_def
        restore_math_def escapeLaTexString_def replaceAll_char_def clipboard_writeText_def)

subsection \<open>loadCSLStyles\<close>

lemma parse_ieee:
  "parsePromise ext0 ''styles/ieee.csl'' = Inr (Some \<lparr>key = ''ieee'', name = Prim ''IEEE''\<rparr>)"
  by (simp add: parsePromise_def ext0_def readFileSync0_def files0_def xml_parse0_def
        xml_ieee_def xml_nameless_def style_info_title_def path_basename0_def endsWith_def Let_def)

lemma parse_nameless:
  "parsePromise ext0 ''styles/nameless.csl'' = Inr (Some \<lparr>key = ''nameless'', name = Undefined\<rparr>)"
  by (simp add: parsePromise_def ext0_def readFileSync0_def files0_def xml_parse0_def
        xml_ieee_def xml_nameless_def style_info_title_def path_basename0_def endsWith_def Let_def)

lemma parse_void: "parsePromise ext0 ''styles/void.csl'' = Inr None"
  by (simp add: parsePromise_def ext0_def readFileSync0_def files0_def xml_parse0_def
        xml_ieee_def xml_nameless_def style_info_title_def path_basename0_def endsWith_def Let_def)

text \<open>
  C8 at a directory with the files ieee.csl (with a title), nameless.csl (with
  style.info but no title), notes.txt and void.csl (without style). The listing holds
  the three built-in entries, the entry of ieee.csl and an entry for nameless.csl whose
  name is undefined: the file that yields no title is listed, where the claim says it
  is omitted. Only void.csl, where reading the title raises, is left out.
\<close>

theorem style_without_title_is_listed:
  "snd (loadCSLStyles ext0 prefs0 world0) =
     CSLStyles @ [\<lparr>key = ''ieee'', name = Prim ''IEEE''\<rparr>, \<lparr>key = ''nameless'', name = Undefined\<rparr>]
   \<and> style_info_title (Obj [(''style'', Obj [(''info'', Obj [(''id'', Prim ''x'')])])]) = Inr Undefined"
proof -
  have "path_join ext0 = path_join0" "readdirSync ext0 = readdirSync0"
    by (simp_all add: ext0_def)
  then have "loadCSLStyles_body ext0 prefs0 =
      Inr (CSLStyles @ [\<lparr>key = ''ieee'', name = Prim ''IEEE''\<rparr>, \<lparr>key = ''nameless'', name = Undefined\<rparr>])"
    by (simp add: loadCSLStyles_body_def prefs0_def readdirSync0_def endsWith_def path_join0_def
          parse_ieee parse_nameless parse_void)
  then show ?thesis
    by (simp add: loadCSLStyles_def errorcatching_def style_info_title_def)
qed

theorem style_without_title_is_listed_witness:
  "map key (snd (loadCSLStyles ext0 prefs0 world0))
     = [''apa'', ''vancouver'', ''harvard1'', ''ieee'', ''nameless'']
   \<and> map name (drop 3 (snd (loadCSLStyles ext0 prefs0 world0))) = [Prim ''IEEE'', Undefined]"
  using style_without_title_is_listed by (simp add: CSLStyles_def)

subsection \<open>exportBibTexBody\<close>

lemmas body_simps = exportBibTexBody_def protect_math_def protect_title_def match_envs_def
  js_replace_def placeholder_def placeholder_braced_def restore_math_def escapeLaTexString_def
  replaceAll_char_def errorcatching_def ext0_def format_bibtex0_def is_line_terminator_def

text \<open>
  C2 at the title "Bounds on $$x$$", with a formatter that renders each entry by its
  title and keeps the placeholder tokens. The pattern finds the two spans "$$" and
  "$$"; each is put back by replace with the span as replacement text, where "$$" stands
  for a single dollar sign, so the body holds "$x$": the spans are not identical to the
  input. The specification's own example, with one inline span and an ampersand
  outside it, is rendered as the claim says.
\<close>

theorem display_math_span_not_restored:
  "snd (fst (exportBibTexBody ext0 world0 (Some [csl_display]))) = ''title = {Bounds on $x$}, ''
   \<and> match_envs (csl_title csl_display) = [''$$'', ''$$'']
   \<and> snd (fst (exportBibTexBody ext0 world0 (Some [csl_inline])))
       = ''title = {A $O(n '' @ [CHR 0x5C] @ ''log n)$ Algorithm '' @ [CHR 0x5C] @ ''& More}, ''"
  by (simp add: body_simps csl_display_def csl_inline_def)

theorem display_math_span_not_restored_witness:
  "snd (fst (exportBibTexBody ext0 world0 (Some [csl_display]))) \<noteq> ''title = {Bounds on $$x$$}, ''"
  using display_math_span_not_restored by simp

end
